theory Spec2Isabelle
  imports Main "HOL-Library.Sublist" "HOL-Library.AList"
begin

section \<open>Exceptions\<close>

text \<open>
  The exceptions of the Python program are values. A function that may raise returns
  \<open>py_error + 'a\<close>, with \<open>Inl\<close> for the exception that leaves it.
\<close>

datatype py_error =
    ZeroDivisionError
  | ValueError
  | KeyError
  | IndexError
  | FileNotFoundError
  | FileExistsError
  | IsADirectoryError
  | NotADirectoryError
  | SameFileError
  | OSError
  | TypeError
  | SystemExit int

section \<open>Strings\<close>

text \<open>
  A Python \<open>str\<close> is a \<open>string\<close>; a character outside ASCII stands as its UTF-8 bytes.
\<close>

definition digit_char :: "nat \<Rightarrow> char" where
  "digit_char d = ''0123456789'' ! d"

fun str_nat :: "nat \<Rightarrow> string" where
  "str_nat n = (if n < 10 then [digit_char n] else str_nat (n div 10) @ [digit_char (n mod 10)])"

declare str_nat.simps [simp del]

text \<open>\<open>s * n\<close> on a Python string: \<open>n\<close> copies, none when \<open>n\<close> is negative.\<close>

definition str_mul :: "string \<Rightarrow> int \<Rightarrow> string" where
  "str_mul s n = concat (replicate (nat n) s)"

text \<open>\<open>needle in s\<close>: the substring test.\<close>

fun str_contains :: "string \<Rightarrow> string \<Rightarrow> bool" where
  "str_contains needle [] = (needle = [])"
| "str_contains needle (c # cs) = (prefix needle (c # cs) \<or> str_contains needle cs)"

section \<open>per\_tools.ProgressBar\<close>

record ProgressBar =
  pb_iteration :: int
  pb_total :: int
  pb_prefix :: string
  pb_suffix :: string
  pb_decimals :: int
  pb_length :: int
  pb_fill :: string

text \<open>The default fill character U+2588, as its three UTF-8 bytes.\<close>

definition default_fill :: string where
  "default_fill = [CHR 0xE2, CHR 0x96, CHR 0x88]"

text \<open>\<open>ProgressBar(total)\<close> with every keyword argument at its default.\<close>

definition ProgressBar_init :: "int \<Rightarrow> ProgressBar" where
  "ProgressBar_init t =
     \<lparr>pb_iteration = 0, pb_total = t, pb_prefix = [], pb_suffix = [],
      pb_decimals = 1, pb_length = 50, pb_fill = default_fill\<rparr>"

text \<open>
  Rounding of the non-negative fraction \<open>p / q\<close> to the nearest integer, ties to even: the
  rounding of Python's fixed-point format on a value it holds exactly.
\<close>

definition round_half_even :: "nat \<Rightarrow> nat \<Rightarrow> nat" where
  "round_half_even p q =
     (let fl = p div q; r = p mod q
      in if 2 * r < q then fl
         else if q < 2 * r then fl + 1
         else if even fl then fl else fl + 1)"

text \<open>
  \<open>("{0:." + str(decimals) + "f}").format(100 * (iteration / float(total)))\<close>.
  The quotient is computed on exact fractions; the double of the source agrees with it
  whenever \<open>iteration / total\<close> and its hundredfold are representable, as for
  \<open>total = 4\<close>. A zero total raises in the division, a negative precision in the format.
  The sign is the sign bit of the double: a zero iteration over a negative total is \<open>-0.0\<close>.
\<close>

definition percent :: "ProgressBar \<Rightarrow> py_error + string" where
  "percent pb =
     (if pb_total pb = 0 then Inl ZeroDivisionError
      else if pb_decimals pb < 0 then Inl ValueError
      else
        let d = nat (pb_decimals pb);
            neg = ((pb_iteration pb < 0) \<noteq> (pb_total pb < 0));
            r = round_half_even (100 * nat \<bar>pb_iteration pb\<bar> * 10 ^ d) (nat \<bar>pb_total pb\<bar>);
            whole = str_nat (r div 10 ^ d);
            frac = str_nat (r mod 10 ^ d);
            frac_padded = replicate (d - length frac) (CHR ''0'') @ frac
        in Inr ((if neg then ''-'' else [])
                @ whole @ (if d = 0 then [] else ''.'' @ frac_padded)))"

text \<open>
  \<open>print\<close> returns the text it sends to standard output: the bar line, closed by a carriage
  return, and a newline once the iteration has reached the total.
\<close>

definition pb_print :: "ProgressBar \<Rightarrow> py_error + string" where
  "pb_print pb =
     (case percent pb of
        Inl e \<Rightarrow> Inl e
      | Inr pc \<Rightarrow>
          let filled_length = (pb_length pb * pb_iteration pb) div pb_total pb;
              bar = str_mul (pb_fill pb) filled_length
                    @ str_mul ''-'' (pb_length pb - filled_length)
          in Inr ([CHR 0x0D] @ pb_prefix pb @ '' |'' @ bar @ ''| '' @ pc @ ''% ''
                  @ pb_suffix pb @ [CHR 0x0D]
                  @ (if pb_iteration pb \<ge> pb_total pb then [CHR 0x0A] else [])))"

definition increment :: "ProgressBar \<Rightarrow> ProgressBar" where
  "increment pb = pb\<lparr>pb_iteration := pb_iteration pb + 1\<rparr>"


text \<open>\<open>k\<close> calls of \<open>increment\<close> in a row.\<close>

fun increment_times :: "nat \<Rightarrow> ProgressBar \<Rightarrow> ProgressBar" where
  "increment_times 0 pb = pb"
| "increment_times (Suc k) pb = increment_times k (increment pb)"

text \<open>The printed line before and after the percentage.\<close>

definition pb_head :: "ProgressBar \<Rightarrow> string" where
  "pb_head pb = [CHR 0x0D] @ pb_prefix pb @ '' |''
     @ str_mul (pb_fill pb) ((pb_length pb * pb_iteration pb) div pb_total pb)
     @ str_mul ''-'' (pb_length pb - (pb_length pb * pb_iteration pb) div pb_total pb)
     @ ''| ''"

definition pb_tail :: "ProgressBar \<Rightarrow> string" where
  "pb_tail pb = '' '' @ pb_suffix pb @ [CHR 0x0D]
     @ (if pb_iteration pb \<ge> pb_total pb then [CHR 0x0A] else [])"

section \<open>Strings of the standard library\<close>








section \<open>Regular expressions\<close>








section \<open>posixpath\<close>






section \<open>The file system\<close>

text \<open>
  An mp3 file: its audio data, the tag dictionary that \<open>EasyID3\<close> reads and writes (a key
  maps to a list of values), and its modification time in whole seconds since the epoch.
\<close>

record mp3 =
  audio :: nat
  id3 :: "(string \<times> string list) list"
  mtime :: int

datatype node = Dir | File mp3

text \<open>
  The file system maps a resolved path (the list of its components below the root) to the
  node there; the root is always a directory. A relative path is resolved from the current
  directory. Symbolic links and the component \<open>..\<close> are not modelled.
\<close>

record filesystem =
  cwd :: "string list"
  nodes :: "(string list \<times> node) list"

function components :: "string \<Rightarrow> string list" where
  "components s =
     (if s = [] then []
      else let c = takeWhile (\<lambda>x. x \<noteq> CHR ''/'') s;
               rest = drop 1 (dropWhile (\<lambda>x. x \<noteq> CHR ''/'') s)
           in (if c = [] \<or> c = ''.'' then [] else [c]) @ components rest)"
  by pat_completeness auto
termination
proof (relation "measure length")
  fix s :: string and c rest
  assume "s \<noteq> []" and "rest = drop 1 (dropWhile (\<lambda>x. x \<noteq> CHR ''/'') s)"
  then show "(rest, s) \<in> measure length"
    using length_dropWhile_le [of "\<lambda>x. x \<noteq> CHR ''/''" s]
    by (cases "dropWhile (\<lambda>x. x \<noteq> CHR ''/'') s") (auto simp: dropWhile_eq_Nil_conv)
qed simp

declare components.simps [simp del]

definition resolve :: "filesystem \<Rightarrow> string \<Rightarrow> string list" where
  "resolve fs p = (if p \<noteq> [] \<and> hd p = CHR ''/'' then [] else cwd fs) @ components p"

definition node_at :: "filesystem \<Rightarrow> string list \<Rightarrow> node option" where
  "node_at fs k = (if k = [] then Some Dir else map_of (nodes fs) k)"

text \<open>
  What a path names: nothing for the empty path and for a path with a trailing slash that
  leads to a regular file.
\<close>

definition lookup :: "filesystem \<Rightarrow> string \<Rightarrow> node option" where
  "lookup fs p =
     (if p = [] then None
      else case node_at fs (resolve fs p) of
             Some (File f) \<Rightarrow> if last p = CHR ''/'' then None else Some (File f)
           | r \<Rightarrow> r)"

definition isdir :: "filesystem \<Rightarrow> string \<Rightarrow> bool" where
  "isdir fs p \<longleftrightarrow> lookup fs p = Some Dir"




section \<open>mutagen.easyid3\<close>



section \<open>actions.id3\_correct\<close>









section \<open>Example settings and file systems\<close>







section \<open>Properties of the progress bar\<close>




lemma str_contains_set: "str_contains n s \<Longrightarrow> set n \<subseteq> set s"
proof (induction s)
  case Nil
  then show ?case by simp
next
  case (Cons c cs)
  then show ?case using set_mono_prefix [of n "c # cs"] by auto
qed

lemma str_contains_here: "str_contains n (n @ b)"
proof (cases "n @ b")
  case Nil
  then show ?thesis by simp
next
  case (Cons c cs)
  have "prefix n (n @ b)" by simp
  then show ?thesis unfolding Cons by simp
qed

lemma str_contains_append: "str_contains n (a @ n @ b)"
  by (induction a) (simp_all add: str_contains_here)

lemma set_str_mul: "set (str_mul s n) \<subseteq> set s"
  by (auto simp: str_mul_def)

lemma str_nat_small: "n < 10 \<Longrightarrow> str_nat n = [digit_char n]"
  by (simp add: str_nat.simps)

lemma str_nat_large: "10 \<le> n \<Longrightarrow> str_nat n = str_nat (n div 10) @ [digit_char (n mod 10)]"
  by (subst str_nat.simps) simp

lemma increment_times_iteration:
  "increment_times k pb = pb\<lparr>pb_iteration := pb_iteration pb + int k\<rparr>"
  by (induction k arbitrary: pb) (auto simp: increment_def)

lemma pb_print_eq:
  "percent pb = Inr pc \<Longrightarrow> pb_print pb = Inr (pb_head pb @ pc @ ''%'' @ pb_tail pb)"
  by (simp add: pb_print_def Let_def pb_head_def pb_tail_def)

lemma set_pb_head:
  "set (pb_head pb)
     \<subseteq> {CHR 0x0D, CHR '' '', CHR ''|'', CHR ''-''} \<union> set (pb_prefix pb) \<union> set (pb_fill pb)"
  using set_str_mul [of "pb_fill pb"] set_str_mul [of "''-''"]
  unfolding pb_head_def by auto

lemma set_pb_tail:
  "set (pb_tail pb) \<subseteq> {CHR 0x0D, CHR '' '', CHR 0x0A} \<union> set (pb_suffix pb)"
  unfolding pb_tail_def by auto

lemma percent_total4:
  "percent (increment_times 0 (ProgressBar_init 4)) = Inr ''0.0''"
  "percent (increment_times 1 (ProgressBar_init 4)) = Inr ''25.0''"
  "percent (increment_times 2 (ProgressBar_init 4)) = Inr ''50.0''"
  "percent (increment_times 3 (ProgressBar_init 4)) = Inr ''75.0''"
  "percent (increment_times 4 (ProgressBar_init 4)) = Inr ''100.0''"
  unfolding increment_times_iteration
  by (simp_all add: ProgressBar_init_def percent_def round_half_even_def
        str_nat_small str_nat_large digit_char_def Let_def)

lemma no_one_in_head4: "CHR ''1'' \<notin> set (pb_head (increment_times k (ProgressBar_init 4)))"
proof -
  let ?pb = "increment_times k (ProgressBar_init 4)"
  have "set (pb_prefix ?pb) = {}"
    by (simp add: increment_times_iteration ProgressBar_init_def)
  moreover have "set (pb_fill ?pb) = {CHR 0xE2, CHR 0x96, CHR 0x88}"
    by (simp add: increment_times_iteration ProgressBar_init_def default_fill_def)
  ultimately show ?thesis using set_pb_head [of ?pb] by auto
qed

lemma no_one_in_tail4: "CHR ''1'' \<notin> set (pb_tail (increment_times k (ProgressBar_init 4)))"
proof -
  let ?pb = "increment_times k (ProgressBar_init 4)"
  have "set (pb_suffix ?pb) = {}"
    by (simp add: increment_times_iteration ProgressBar_init_def)
  then show ?thesis using set_pb_tail [of ?pb] by auto
qed

lemma below_100_total4:
  assumes "percent (increment_times k (ProgressBar_init 4)) = Inr pc" and "CHR ''1'' \<notin> set pc"
  shows "\<exists>out. pb_print (increment_times k (ProgressBar_init 4)) = Inr out
           \<and> \<not> str_contains ''100.0%'' out"
proof -
  let ?pb = "increment_times k (ProgressBar_init 4)"
  let ?out = "pb_head ?pb @ pc @ ''%'' @ pb_tail ?pb"
  have p: "pb_print ?pb = Inr ?out" using assms(1) by (rule pb_print_eq)
  have "CHR ''1'' \<notin> set ?out"
    using assms(2) no_one_in_head4 [of k] no_one_in_tail4 [of k] by simp
  then have "\<not> str_contains ''100.0%'' ?out"
    using str_contains_set [of "''100.0%''" ?out] by auto
  with p show ?thesis by blast
qed

text \<open>
  Claim C6. A bar built with \<open>total = 4\<close> and the default precision prints the percentages
  0.0, 25.0, 50.0 and 75.0 after 0, 1, 2 and 3 increments, and none of these four lines
  contains the text \<open>100.0%\<close>; after the fourth increment the percentage is 100.0 and the
  printed line contains \<open>100.0%\<close>.
\<close>

theorem progress_total4_full_only_after_4:
  "percent (increment_times 0 (ProgressBar_init 4)) = Inr ''0.0''
   \<and> percent (increment_times 1 (ProgressBar_init 4)) = Inr ''25.0''
   \<and> percent (increment_times 2 (ProgressBar_init 4)) = Inr ''50.0''
   \<and> percent (increment_times 3 (ProgressBar_init 4)) = Inr ''75.0''
   \<and> percent (increment_times 4 (ProgressBar_init 4)) = Inr ''100.0''
   \<and> (\<exists>out. pb_print (increment_times 0 (ProgressBar_init 4)) = Inr out
         \<and> \<not> str_contains ''100.0%'' out)
   \<and> (\<exists>out. pb_print (increment_times 1 (ProgressBar_init 4)) = Inr out
         \<and> \<not> str_contains ''100.0%'' out)
   \<and> (\<exists>out. pb_print (increment_times 2 (ProgressBar_init 4)) = Inr out
         \<and> \<not> str_contains ''100.0%'' out)
   \<and> (\<exists>out. pb_print (increment_times 3 (ProgressBar_init 4)) = Inr out
         \<and> \<not> str_contains ''100.0%'' out)
   \<and> (\<exists>out. pb_print (increment_times 4 (ProgressBar_init 4)) = Inr out
         \<and> str_contains ''100.0%'' out)"
proof -
  have b0: "\<exists>out. pb_print (increment_times 0 (ProgressBar_init 4)) = Inr out
              \<and> \<not> str_contains ''100.0%'' out"
    by (rule below_100_total4 [OF percent_total4(1)]) simp
  have b1: "\<exists>out. pb_print (increment_times 1 (ProgressBar_init 4)) = Inr out
              \<and> \<not> str_contains ''100.0%'' out"
    by (rule below_100_total4 [OF percent_total4(2)]) simp
  have b2: "\<exists>out. pb_print (increment_times 2 (ProgressBar_init 4)) = Inr out
              \<and> \<not> str_contains ''100.0%'' out"
    by (rule below_100_total4 [OF percent_total4(3)]) simp
  have b3: "\<exists>out. pb_print (increment_times 3 (ProgressBar_init 4)) = Inr out
              \<and> \<not> str_contains ''100.0%'' out"
    by (rule below_100_total4 [OF percent_total4(4)]) simp
  let ?pb = "increment_times 4 (ProgressBar_init 4)"
  have "pb_print ?pb = Inr (pb_head ?pb @ ''100.0%'' @ pb_tail ?pb)"
    using pb_print_eq [OF percent_total4(5)] by simp
  moreover have "str_contains ''100.0%'' (pb_head ?pb @ ''100.0%'' @ pb_tail ?pb)"
    by (rule str_contains_append)
  ultimately have b4: "\<exists>out. pb_print ?pb = Inr out \<and> str_contains ''100.0%'' out"
    by blast
  from b0 b1 b2 b3 b4 percent_total4 show ?thesis by blast
qed



section \<open>Properties of the splitting at the separator\<close>














section \<open>Properties of id3\_correct\<close>

lemma resolve_nodes [simp]: "resolve (fs\<lparr>nodes := n\<rparr>) p = resolve fs p"
  by (simp add: resolve_def)


























end
